theory Spec2Isabelle
  imports Complex_Main "HOL-Library.Sublist"
begin

section \<open>The local SOP identifier: catalog parsing, hybrid retrieval, recommendation\<close>

text \<open>
  A shallow embedding of \<^verbatim>\<open>src/local_sop_identifier.py\<close> (class
  \<^verbatim>\<open>LocalSOPIdentifier\<close>). Text is a \<open>string\<close>, one \<open>char\<close> per code
  point (code points below 256). Python floats are modelled as \<open>real\<close>: sums, products
  and quotients are exact, and \<^verbatim>\<open>round(x, 4)\<close> is rounding to the nearest multiple
  of \<open>1/10000\<close>, halves to the even neighbour. Exceptions are values of \<open>py_error\<close>.

  The doubles that the code computes are close to these reals and not equal to them.
  What is proved below relates the values of one run to each other (which value is
  compared with which, in what order, rounded or not), and that carries over to the
  doubles; a score that is exactly on a rounding boundary or on a breakpoint as a real
  may fall on either side as a double, so no theorem states a numeric tolerance, and
  the concrete inputs are away from such boundaries.
\<close>

datatype py_error =
    ValueError_int          \<comment> \<open>\<^verbatim>\<open>int()\<close>: invalid literal\<close>
  | ValueError_no_index     \<comment> \<open>"Index not built or loaded. ..."\<close>
  | IndexError

subsection \<open>Python string primitives used by \<^verbatim>\<open>parse_sops\<close>\<close>

definition newline :: char where
  "newline = CHR 0x0A"

text \<open>The code points below 256 for which \<^verbatim>\<open>str.isspace\<close> holds.\<close>

definition isspace :: "char \<Rightarrow> bool" where
  "isspace c = (c \<in> set [CHR 0x09, CHR 0x0A, CHR 0x0B, CHR 0x0C, CHR 0x0D,
                          CHR 0x1C, CHR 0x1D, CHR 0x1E, CHR 0x1F, CHR 0x20,
                          CHR 0x85, CHR 0xA0])"

text \<open>\<^verbatim>\<open>s.strip()\<close>\<close>

definition strip :: "string \<Rightarrow> string" where
  "strip s = rev (dropWhile isspace (rev (dropWhile isspace s)))"

text \<open>\<^verbatim>\<open>s.startswith(p)\<close>\<close>

definition startswith :: "string \<Rightarrow> string \<Rightarrow> bool" where
  "startswith s p = prefix p s"

text \<open>
  \<^verbatim>\<open>s.split(sep)\<close> for the non-empty separator \<open>c # cs\<close>: the text is cut at every
  occurrence of the separator, scanning from the left, occurrences not overlapping.
\<close>

fun cons_hd :: "char \<Rightarrow> string list \<Rightarrow> string list" where
  "cons_hd x [] = [[x]]"
| "cons_hd x (p # ps) = (x # p) # ps"

fun py_split :: "char \<Rightarrow> string \<Rightarrow> string \<Rightarrow> string list" where
  "py_split c cs [] = [[]]"
| "py_split c cs (x # xs) =
     (if x = c \<and> prefix cs xs then [] # py_split c cs (drop (length cs) xs)
      else cons_hd x (py_split c cs xs))"

text \<open>\<^verbatim>\<open>s.replace(c # cs, '')\<close>: every occurrence is removed, scanning from the left.\<close>

fun py_remove :: "char \<Rightarrow> string \<Rightarrow> string \<Rightarrow> string" where
  "py_remove c cs [] = []"
| "py_remove c cs (x # xs) =
     (if x = c \<and> prefix cs xs then py_remove c cs (drop (length cs) xs)
      else x # py_remove c cs xs)"

text \<open>
  \<^verbatim>\<open>int(s)\<close> in base 10: surrounding whitespace is dropped, one sign is allowed, then
  decimal digits, single underscores allowed between two digits. \<open>None\<close> is the
  \<^verbatim>\<open>ValueError\<close>.

  The whitespace that \<^verbatim>\<open>int\<close> drops is not that of \<^verbatim>\<open>str.strip\<close>: among the
  ASCII characters it is tab, line feed, vertical tab, form feed, carriage return and
  space only, so the separators \<open>0x1C\<close> to \<open>0x1F\<close> make the literal invalid; above
  ASCII every Unicode space counts (\<open>0x85\<close> and \<open>0xA0\<close> below 256). A literal of more
  than 4300 digits is refused (the interpreter's default limit for conversions).
\<close>

definition int_isspace :: "char \<Rightarrow> bool" where
  "int_isspace c = (c \<in> set [CHR 0x09, CHR 0x0A, CHR 0x0B, CHR 0x0C, CHR 0x0D, CHR 0x20,
                              CHR 0x85, CHR 0xA0])"

definition int_strip :: "string \<Rightarrow> string" where
  "int_strip s = rev (dropWhile int_isspace (rev (dropWhile int_isspace s)))"

definition int_max_str_digits :: nat where
  "int_max_str_digits = 4300"

definition digit_val :: "char \<Rightarrow> nat option" where
  "digit_val c = map_of [(CHR ''0'', 0), (CHR ''1'', 1), (CHR ''2'', 2), (CHR ''3'', 3),
                         (CHR ''4'', 4), (CHR ''5'', 5), (CHR ''6'', 6), (CHR ''7'', 7),
                         (CHR ''8'', 8), (CHR ''9'', 9)] c"

fun int_digits :: "nat \<Rightarrow> string \<Rightarrow> nat option" where
  "int_digits acc [] = Some acc"
| "int_digits acc [x] =
     (case digit_val x of None \<Rightarrow> None | Some d \<Rightarrow> Some (10 * acc + d))"
| "int_digits acc (x # y # ys) =
     (if x = CHR ''_''
      then (case digit_val y of None \<Rightarrow> None | Some d \<Rightarrow> int_digits (10 * acc + d) ys)
      else (case digit_val x of None \<Rightarrow> None | Some d \<Rightarrow> int_digits (10 * acc + d) (y # ys)))"

definition int_literal :: "string \<Rightarrow> nat option" where
  "int_literal s =
     (case s of [] \<Rightarrow> None
      | x # xs \<Rightarrow>
          (case digit_val x of None \<Rightarrow> None
           | Some d \<Rightarrow>
               (case int_digits d xs of None \<Rightarrow> None
                | Some n \<Rightarrow>
                    if length (filter (\<lambda>c. c \<noteq> CHR ''_'') s) > int_max_str_digits then None
                    else Some n)))"

definition py_int :: "string \<Rightarrow> int option" where
  "py_int s =
     (case int_strip s of [] \<Rightarrow> None
      | x # xs \<Rightarrow>
          if x = CHR ''-'' then map_option (\<lambda>n. - int n) (int_literal xs)
          else if x = CHR ''+'' then map_option int (int_literal xs)
          else map_option int (int_literal (x # xs)))"

text \<open>\<^verbatim>\<open>str(n)\<close> for an integer, as the f-strings print it.\<close>

definition digit_char :: "nat \<Rightarrow> char" where
  "digit_char d = ''0123456789'' ! d"

fun str_nat :: "nat \<Rightarrow> string" where
  "str_nat n =
     (if n < 10 then [digit_char n] else str_nat (n div 10) @ [digit_char (n mod 10)])"

definition str_int :: "int \<Rightarrow> string" where
  "str_int i = (if i < 0 then CHR ''-'' # str_nat (nat (- i)) else str_nat (nat i))"

subsection \<open>\<^verbatim>\<open>parse_sops\<close>\<close>

record sop_chunk =
  chunk_id :: string
  title :: string
  content :: string
  sop_number :: int

text \<open>
  The body of the loop for one section. \<open>Inr None\<close>: the section is passed over;
  \<open>Inr (Some c)\<close>: the chunk appended; \<open>Inl e\<close>: the exception that leaves the loop.
\<close>

definition first_line :: "string \<Rightarrow> string" where
  "first_line section = strip (takeWhile (\<lambda>c. c \<noteq> newline) section)"

definition parse_section :: "string \<Rightarrow> py_error + sop_chunk option" where
  "parse_section raw =
     (let section = strip raw in
      if section \<noteq> [] \<and> startswith section ''SOP-'' then
        let fl = first_line section in
        if CHR '':'' \<in> set fl then
          let sop_part = takeWhile (\<lambda>c. c \<noteq> CHR '':'') fl;
              ttl = tl (dropWhile (\<lambda>c. c \<noteq> CHR '':'') fl)
          in (case py_int (py_remove CHR ''S'' ''OP-'' sop_part) of
                None \<Rightarrow> Inl ValueError_int
              | Some n \<Rightarrow>
                  Inr (Some \<lparr>chunk_id = ''sop_'' @ str_int n,
                             title = ''SOP-'' @ str_int n @ '': '' @ strip ttl,
                             content = section,
                             sop_number = n\<rparr>))
        else Inr None
      else Inr None)"

fun parse_loop :: "string list \<Rightarrow> sop_chunk list \<Rightarrow> py_error + sop_chunk list" where
  "parse_loop [] chunks = Inr chunks"
| "parse_loop (s # ss) chunks =
     (case parse_section s of
        Inl e \<Rightarrow> Inl e
      | Inr None \<Rightarrow> parse_loop ss chunks
      | Inr (Some c) \<Rightarrow> parse_loop ss (chunks @ [c]))"

text \<open>\<open>text\<close> is what \<^verbatim>\<open>f.read()\<close> returned.\<close>

definition parse_sops :: "string \<Rightarrow> py_error + sop_chunk list" where
  "parse_sops text = parse_loop (py_split CHR ''-'' ''--'' text) []"

subsection \<open>The index state and the scores of a query\<close>

text \<open>
  The fields of the object that \<^verbatim>\<open>retrieve_relevant_sops\<close> reads. The FAISS index
  is an external object; the model keeps its vector count, \<open>None\<close> while no index has
  been built or loaded.
\<close>

record sop_identifier =
  sop_chunks :: "sop_chunk list"
  faiss_index :: "nat option"

text \<open>
  The encoder, the FAISS search and the BM25 scorer are external libraries. A query
  enters the model as what they return for it: \<open>hits\<close>, the pairs
  \<^verbatim>\<open>(indices[0][i], distances[0][i])\<close> of the search, and \<open>bm25_scores\<close>, the vector of
  \<^verbatim>\<open>self.bm25.get_scores(tokenized_query)\<close>. BM25 is built over the corpus of
  \<open>sop_chunks\<close>, so that vector has one entry per chunk, and the model is meant for
  such vectors only.
\<close>

text \<open>
  Lines 245--248: the loop over the hits, storing into \<^verbatim>\<open>np.zeros(n)\<close>. The label
  \<open>-1\<close> is passed over; another negative label counts from the end, as numpy indexes;
  a label out of range raises.
\<close>

fun fill_semantic :: "(int \<times> real) list \<Rightarrow> real list \<Rightarrow> py_error + real list" where
  "fill_semantic [] semantic_scores = Inr semantic_scores"
| "fill_semantic ((idx, d) # hs) semantic_scores =
     (if idx \<noteq> - 1 then
        (let n = int (length semantic_scores);
             j = (if idx < 0 then idx + n else idx)
         in if 0 \<le> j \<and> j < n then fill_semantic hs (semantic_scores[nat j := d])
            else Inl IndexError)
      else fill_semantic hs semantic_scores)"

text \<open>\<^verbatim>\<open>v.max()\<close> of a non-empty vector.\<close>

definition vec_max :: "real list \<Rightarrow> real" where
  "vec_max v = foldl max (hd v) (tl v)"

text \<open>Lines 255--263, the same for both vectors.\<close>

definition normalize :: "real list \<Rightarrow> real list" where
  "normalize v = (if vec_max v > 0 then map (\<lambda>x. x / vec_max v) v else v)"

text \<open>
  \<^verbatim>\<open>np.argsort(v)\<close>: the rows in ascending order of their value. The model is the
  stable sort, rows of equal value in ascending row order. numpy promises no order
  among equal values for its default sort and may put them otherwise; the theorems
  below on counts and on the order of scores use of \<open>argsort\<close> only that it sorts.
\<close>

definition argsort :: "real list \<Rightarrow> nat list" where
  "argsort v = sort_key (\<lambda>i. v ! i) [0..<length v]"

text \<open>\<^verbatim>\<open>xs[:k]\<close>\<close>

definition py_take :: "int \<Rightarrow> 'a list \<Rightarrow> 'a list" where
  "py_take k xs = (if k < 0 then take (nat (int (length xs) + k)) xs else take (nat k) xs)"

text \<open>The local variables at line 272.\<close>

record scoring =
  semantic_scores :: "real list"
  bm25_raw :: "real list"
  semantic_scores_norm :: "real list"
  bm25_scores_norm :: "real list"
  hybrid_scores :: "real list"
  top_indices :: "nat list"

definition score_query ::
  "sop_identifier \<Rightarrow> (int \<times> real) list \<Rightarrow> real list \<Rightarrow> int \<Rightarrow> real \<Rightarrow> real \<Rightarrow> py_error + scoring" where
  "score_query self hits bm25_scores top_k semantic_weight bm25_weight =
     (if sop_chunks self = [] \<or> faiss_index self = None then Inl ValueError_no_index
      else
        (case fill_semantic hits (replicate (length (sop_chunks self)) 0) of
           Inl e \<Rightarrow> Inl e
         | Inr sem \<Rightarrow>
             (let sem_norm = normalize sem;
                  bm_norm = normalize bm25_scores;
                  hybrid = map2 (\<lambda>s b. semantic_weight * s + bm25_weight * b) sem_norm bm_norm
              in Inr \<lparr>semantic_scores = sem,
                      bm25_raw = bm25_scores,
                      semantic_scores_norm = sem_norm,
                      bm25_scores_norm = bm_norm,
                      hybrid_scores = hybrid,
                      top_indices = py_take top_k (rev (argsort hybrid))\<rparr>)))"

subsection \<open>\<^verbatim>\<open>retrieve_relevant_sops\<close>\<close>

text \<open>\<^verbatim>\<open>round(x, ndigits)\<close> of a float, on the reals: nearest, halves to even.\<close>

definition round_half_even :: "real \<Rightarrow> int" where
  "round_half_even x =
     (let f = \<lfloor>x\<rfloor>; d = x - of_int f
      in if d < 1 / 2 then f else if d > 1 / 2 then f + 1
         else if even f then f else f + 1)"

definition py_round :: "real \<Rightarrow> nat \<Rightarrow> real" where
  "py_round x ndigits = of_int (round_half_even (x * 10 ^ ndigits)) / 10 ^ ndigits"

datatype level = HIGH | MEDIUM | LOW | NONE

record sop_result =
  result_id :: string
  result_title :: string
  result_sop_number :: int
  confidence_score :: real
  confidence_level :: level
  semantic_score :: real
  bm25_score :: real
  content_preview :: string

text \<open>Lines 277--296: the body of the loop over \<open>top_indices\<close>.\<close>

definition make_result :: "sop_chunk list \<Rightarrow> scoring \<Rightarrow> nat \<Rightarrow> sop_result" where
  "make_result chunks sc idx =
     (let confidence = hybrid_scores sc ! idx;
          lvl = (if confidence \<ge> 0.7 then HIGH
                 else if confidence \<ge> 0.4 then MEDIUM
                 else LOW)
      in \<lparr>result_id = chunk_id (chunks ! idx),
          result_title = title (chunks ! idx),
          result_sop_number = sop_number (chunks ! idx),
          confidence_score = py_round confidence 4,
          confidence_level = lvl,
          semantic_score = py_round (semantic_scores_norm sc ! idx) 4,
          bm25_score = py_round (bm25_scores_norm sc ! idx) 4,
          content_preview = take 200 (content (chunks ! idx)) @ ''...''\<rparr>)"

definition retrieve_relevant_sops ::
  "sop_identifier \<Rightarrow> (int \<times> real) list \<Rightarrow> real list \<Rightarrow> int \<Rightarrow> real \<Rightarrow> real
     \<Rightarrow> py_error + sop_result list" where
  "retrieve_relevant_sops self hits bm25_scores top_k semantic_weight bm25_weight =
     (case score_query self hits bm25_scores top_k semantic_weight bm25_weight of
        Inl e \<Rightarrow> Inl e
      | Inr sc \<Rightarrow> Inr (map (make_result (sop_chunks self) sc) (top_indices sc)))"

subsection \<open>\<^verbatim>\<open>select_best_sop\<close>\<close>

datatype recommendation = ACCEPT | REVIEW | REJECT | NO_MATCH

text \<open>
  The dictionary returned. The keys that the no-match dictionary lacks are options,
  as are the two that it sets to \<^verbatim>\<open>None\<close>.
\<close>

record decision =
  selected_sop_id :: "string option"
  selected_sop_number :: "int option"
  selected_sop_title :: "string option"
  selected_confidence_score :: real
  selected_confidence_level :: level
  selected_semantic_score :: "real option"
  selected_bm25_score :: "real option"
  recommended :: recommendation
  reason :: string
  retrieved_sops :: "sop_result list"
  alternative_sops :: "sop_result list option"

definition select_best_sop ::
  "sop_identifier \<Rightarrow> (int \<times> real) list \<Rightarrow> real list \<Rightarrow> int \<Rightarrow> real \<Rightarrow> py_error + decision" where
  "select_best_sop self hits bm25_scores top_k confidence_threshold =
     (case retrieve_relevant_sops self hits bm25_scores top_k 0.6 0.4 of
        Inl e \<Rightarrow> Inl e
      | Inr [] \<Rightarrow>
          Inr \<lparr>selected_sop_id = None,
               selected_sop_number = None,
               selected_sop_title = None,
               selected_confidence_score = 0,
               selected_confidence_level = NONE,
               selected_semantic_score = None,
               selected_bm25_score = None,
               recommended = NO_MATCH,
               reason = ''No relevant SOPs found'',
               retrieved_sops = [],
               alternative_sops = None\<rparr>
      | Inr (best_sop # rest) \<Rightarrow>
          (let (rec, why) =
                 (if confidence_score best_sop \<ge> 0.7 then
                    (ACCEPT, ''High confidence match. The incident strongly aligns with ''
                               @ result_title best_sop @ ''.'')
                  else if confidence_score best_sop \<ge> confidence_threshold then
                    (REVIEW, ''Moderate confidence match. Review '' @ result_title best_sop
                               @ '' to confirm applicability.'')
                  else
                    (REJECT, ''Low confidence. The top match ('' @ result_title best_sop
                               @ '') may not be appropriate. Consider manual review.''))
           in Inr \<lparr>selected_sop_id = Some (result_id best_sop),
                   selected_sop_number = Some (result_sop_number best_sop),
                   selected_sop_title = Some (result_title best_sop),
                   selected_confidence_score = confidence_score best_sop,
                   selected_confidence_level = confidence_level best_sop,
                   selected_semantic_score = Some (semantic_score best_sop),
                   selected_bm25_score = Some (bm25_score best_sop),
                   recommended = rec,
                   reason = why,
                   retrieved_sops = best_sop # rest,
                   alternative_sops = Some rest\<rparr>))"

subsection \<open>The sections of a catalog text\<close>

text \<open>
  \<^verbatim>\<open>sep.join(parts)\<close>, and the three tests that \<^verbatim>\<open>parse_sops\<close> makes on a
  trimmed section, named: it starts with \<^verbatim>\<open>SOP-\<close> and its first line has a colon;
  what \<^verbatim>\<open>int\<close> makes of the text before that colon once every \<^verbatim>\<open>SOP-\<close> is
  removed; both succeed.
\<close>

fun py_join :: "string \<Rightarrow> string list \<Rightarrow> string" where
  "py_join sep [] = []"
| "py_join sep [p] = p"
| "py_join sep (p # q # ps) = p @ sep @ py_join sep (q # ps)"

definition has_header :: "string \<Rightarrow> bool" where
  "has_header section =
     (section \<noteq> [] \<and> startswith section ''SOP-'' \<and> CHR '':'' \<in> set (first_line section))"

definition header_number :: "string \<Rightarrow> int option" where
  "header_number section =
     py_int (py_remove CHR ''S'' ''OP-'' (takeWhile (\<lambda>c. c \<noteq> CHR '':'') (first_line section)))"

definition accepted :: "string \<Rightarrow> bool" where
  "accepted section = (has_header section \<and> header_number section \<noteq> None)"

subsection \<open>Preconditions and example inputs\<close>

text \<open>
  What the search may return for an index of \<open>n\<close> vectors without the loop raising:
  labels that numpy accepts as an index into a vector of \<open>n\<close> entries (FAISS itself
  returns labels from \<open>0\<close> to \<open>n - 1\<close>, or \<open>-1\<close>).
\<close>

definition valid_hits :: "nat \<Rightarrow> (int \<times> real) list \<Rightarrow> bool" where
  "valid_hits n hits = list_all (\<lambda>(idx, d). - int n \<le> idx \<and> idx < int n) hits"

text \<open>A built index over two records, used for the concrete evaluations.\<close>

definition two_sops :: sop_identifier where
  "two_sops =
     \<lparr>sop_chunks =
        [\<lparr>chunk_id = ''sop_1'', title = ''SOP-1: Database Outage'',
          content = ''SOP-1: Database Outage'', sop_number = 1\<rparr>,
         \<lparr>chunk_id = ''sop_2'', title = ''SOP-2: API Slowness'',
          content = ''SOP-2: API Slowness'', sop_number = 2\<rparr>],
      faiss_index = Some 2\<rparr>"

text \<open>The text of a catalog file with these two records.\<close>

definition two_sops_text :: string where
  "two_sops_text =
     ''SOP-1: Database Outage'' @ [newline] @ ''---'' @ [newline]
       @ ''SOP-2: API Slowness'' @ [newline]"

section \<open>Properties\<close>

subsection \<open>Vectors, sorting and rounding\<close>

lemma vec_max_eq_Max: "v \<noteq> [] \<Longrightarrow> vec_max v = Max (set v)"
proof -
  assume "v \<noteq> []"
  then obtain a xs where v: "v = a # xs" by (cases v) auto
  have "foldl max a xs = fold max xs a"
    by (simp add: foldl_conv_fold max.commute)
  moreover have "Max (set (a # xs)) = fold max xs a"
    by (rule Max.set_eq_fold)
  ultimately show ?thesis
    unfolding v vec_max_def by simp
qed

lemma vec_max_mem: "v \<noteq> [] \<Longrightarrow> vec_max v \<in> set v"
  by (simp add: vec_max_eq_Max)

lemma vec_max_ge: "x \<in> set v \<Longrightarrow> x \<le> vec_max v"
  by (cases "v = []") (auto simp: vec_max_eq_Max)

lemma length_normalize: "length (normalize v) = length v"
  by (simp add: normalize_def)

lemma vec_max_normalize:
  assumes "v \<noteq> []" "vec_max v > 0"
  shows "vec_max (normalize v) = 1"
proof -
  let ?m = "vec_max v"
  have n: "normalize v = map (\<lambda>x. x / ?m) v" using assms by (simp add: normalize_def)
  have "Max (set (map (\<lambda>x. x / ?m) v)) = 1"
  proof (rule Max_eqI)
    show "finite (set (map (\<lambda>x. x / ?m) v))" by simp
    show "1 \<in> set (map (\<lambda>x. x / ?m) v)"
      using vec_max_mem[OF assms(1)] assms(2) by (force simp: image_iff)
    fix y assume "y \<in> set (map (\<lambda>x. x / ?m) v)"
    then obtain x where "x \<in> set v" "y = x / ?m" by auto
    then show "y \<le> 1" using vec_max_ge[of x v] assms(2) by (simp add: divide_le_eq)
  qed
  then show ?thesis using assms n by (simp add: vec_max_eq_Max)
qed

lemma fill_semantic_length:
  "fill_semantic hits sem = Inr sem' \<Longrightarrow> length sem' = length sem"
  by (induction hits sem rule: fill_semantic.induct) (auto simp: Let_def split: if_splits)

lemma set_argsort: "set (argsort v) = {0..<length v}"
  by (simp add: argsort_def)

lemma length_argsort: "length (argsort v) = length v"
  by (simp add: argsort_def)

lemma distinct_argsort: "distinct (argsort v)"
  by (simp add: argsort_def)

lemma sorted_argsort: "sorted (map (\<lambda>i. v ! i) (argsort v))"
  by (simp add: argsort_def)

lemma py_take_pos: "1 \<le> k \<Longrightarrow> py_take k xs = take (nat k) xs"
  by (simp add: py_take_def)

lemma top_sorted:
  "sorted_wrt (\<lambda>i j. v ! i \<ge> v ! j) (py_take k (rev (argsort v)))"
proof -
  have "sorted_wrt (\<lambda>i j. v ! i \<le> v ! j) (argsort v)"
    using sorted_argsort[of v] by (simp add: sorted_wrt_map)
  then have "sorted_wrt (\<lambda>i j. v ! i \<ge> v ! j) (rev (argsort v))"
    by (simp add: sorted_wrt_rev)
  then show ?thesis
    by (simp add: py_take_def sorted_wrt_take)
qed

lemma round_half_even_bounds:
  "\<bar>of_int (round_half_even x) - x\<bar> \<le> 1 / 2"
  unfolding round_half_even_def Let_def by (auto; linarith)

lemma round_half_even_mono: "x \<le> y \<Longrightarrow> round_half_even x \<le> round_half_even y"
proof -
  assume xy: "x \<le> y"
  have fxy: "\<lfloor>x\<rfloor> \<le> \<lfloor>y\<rfloor>" using xy by (rule floor_mono)
  show ?thesis
  proof (cases "\<lfloor>x\<rfloor> = \<lfloor>y\<rfloor>")
    case True
    then show ?thesis using xy unfolding round_half_even_def Let_def by auto
  next
    case False
    then have "\<lfloor>x\<rfloor> + 1 \<le> \<lfloor>y\<rfloor>" using fxy by simp
    moreover have "round_half_even x \<le> \<lfloor>x\<rfloor> + 1" unfolding round_half_even_def Let_def by auto
    moreover have "\<lfloor>y\<rfloor> \<le> round_half_even y" unfolding round_half_even_def Let_def by auto
    ultimately show ?thesis by linarith
  qed
qed

lemma py_round_mono: "x \<le> y \<Longrightarrow> py_round x n \<le> py_round y n"
  unfolding py_round_def
  by (intro divide_right_mono) (auto intro!: round_half_even_mono mult_right_mono)

subsection \<open>The scores of a query\<close>

lemma fill_semantic_total:
  "valid_hits (length sem) hits \<Longrightarrow> \<exists>sem'. fill_semantic hits sem = Inr sem'"
proof (induction hits sem rule: fill_semantic.induct)
  case (1 sem)
  then show ?case by simp
next
  case (2 idx d hs sem)
  then show ?case by (auto simp: valid_hits_def Let_def)
qed

lemma score_query_fields:
  assumes "score_query self hits bm k sw bw = Inr sc"
  shows "sop_chunks self \<noteq> []"
    and "fill_semantic hits (replicate (length (sop_chunks self)) 0) = Inr (semantic_scores sc)"
    and "length (semantic_scores sc) = length (sop_chunks self)"
    and "bm25_raw sc = bm"
    and "semantic_scores_norm sc = normalize (semantic_scores sc)"
    and "bm25_scores_norm sc = normalize bm"
    and "hybrid_scores sc = map2 (\<lambda>s b. sw * s + bw * b) (semantic_scores_norm sc) (bm25_scores_norm sc)"
    and "top_indices sc = py_take k (rev (argsort (hybrid_scores sc)))"
  using assms fill_semantic_length[of hits "replicate (length (sop_chunks self)) 0"]
  by (auto simp: score_query_def Let_def split: if_splits sum.splits)

lemma score_query_total:
  assumes "sop_chunks self \<noteq> []" "faiss_index self \<noteq> None"
    and "valid_hits (length (sop_chunks self)) hits"
  shows "\<exists>sc. score_query self hits bm k sw bw = Inr sc"
proof -
  obtain sem where "fill_semantic hits (replicate (length (sop_chunks self)) 0) = Inr sem"
    using fill_semantic_total[of "replicate (length (sop_chunks self)) 0" hits] assms(3) by auto
  then show ?thesis using assms(1,2) by (simp add: score_query_def Let_def)
qed

lemma retrieve_of_score_query:
  "score_query self hits bm k sw bw = Inr sc \<Longrightarrow>
   retrieve_relevant_sops self hits bm k sw bw = Inr (map (make_result (sop_chunks self) sc) (top_indices sc))"
  by (simp add: retrieve_relevant_sops_def)

lemma retrieve_Inr_D:
  "retrieve_relevant_sops self hits bm k sw bw = Inr rs \<Longrightarrow>
   \<exists>sc. score_query self hits bm k sw bw = Inr sc \<and> rs = map (make_result (sop_chunks self) sc) (top_indices sc)"
  by (auto simp: retrieve_relevant_sops_def split: sum.splits)

lemma length_hybrid:
  assumes "score_query self hits bm k sw bw = Inr sc" "length bm = length (sop_chunks self)"
  shows "length (hybrid_scores sc) = length (sop_chunks self)"
  using score_query_fields[OF assms(1)] assms(2) by (simp add: length_normalize)

lemma top_indices_props:
  assumes "score_query self hits bm k sw bw = Inr sc" "length bm = length (sop_chunks self)"
  shows "distinct (top_indices sc)"
    and "set (top_indices sc) \<subseteq> {0..<length (sop_chunks self)}"
    and "sorted_wrt (\<lambda>i j. hybrid_scores sc ! i \<ge> hybrid_scores sc ! j) (top_indices sc)"
    and "1 \<le> k \<Longrightarrow> length (top_indices sc) = min (nat k) (length (sop_chunks self))"
proof -
  let ?h = "hybrid_scores sc"
  have t: "top_indices sc = py_take k (rev (argsort ?h))"
    using score_query_fields(8)[OF assms(1)] .
  have l: "length ?h = length (sop_chunks self)" using length_hybrid[OF assms] .
  show "distinct (top_indices sc)"
    unfolding t py_take_def using distinct_argsort[of ?h] by simp
  show "set (top_indices sc) \<subseteq> {0..<length (sop_chunks self)}"
  proof -
    have "set (top_indices sc) \<subseteq> set (rev (argsort ?h))"
      unfolding t py_take_def by (auto dest: in_set_takeD)
    then show ?thesis using set_argsort[of ?h] l by simp
  qed
  show "sorted_wrt (\<lambda>i j. ?h ! i \<ge> ?h ! j) (top_indices sc)"
    unfolding t by (rule top_sorted)
  show "1 \<le> k \<Longrightarrow> length (top_indices sc) = min (nat k) (length (sop_chunks self))"
    unfolding t using l by (simp add: py_take_pos length_argsort min.commute)
qed

lemma make_result_fields:
  "confidence_score (make_result chunks sc i) = py_round (hybrid_scores sc ! i) 4"
  "semantic_score (make_result chunks sc i) = py_round (semantic_scores_norm sc ! i) 4"
  "bm25_score (make_result chunks sc i) = py_round (bm25_scores_norm sc ! i) 4"
  "confidence_level (make_result chunks sc i) =
     (if hybrid_scores sc ! i \<ge> 0.7 then HIGH else if hybrid_scores sc ! i \<ge> 0.4 then MEDIUM else LOW)"
  "result_id (make_result chunks sc i) = chunk_id (chunks ! i)"
  "result_title (make_result chunks sc i) = title (chunks ! i)"
  "result_sop_number (make_result chunks sc i) = sop_number (chunks ! i)"
  by (simp_all add: make_result_def Let_def)

lemmas eval_defs =
  two_sops_def valid_hits_def score_query_def retrieve_relevant_sops_def select_best_sop_def
  make_result_def normalize_def vec_max_def argsort_def py_take_def py_round_def
  round_half_even_def Let_def

lemma top_index_in_range:
  assumes "score_query self hits bm k sw bw = Inr sc"
    and "length bm = length (sop_chunks self)"
    and "j < length (top_indices sc)"
  shows "top_indices sc ! j < length (sop_chunks self)"
proof -
  have "top_indices sc ! j \<in> set (top_indices sc)" using assms(3) by (rule nth_mem)
  then have "top_indices sc ! j \<in> {0..<length (sop_chunks self)}"
    using top_indices_props(2)[OF assms(1,2)] by blast
  then show ?thesis by simp
qed

lemma hybrid_nth:
  assumes "score_query self hits bm k sw bw = Inr sc"
    and "length bm = length (sop_chunks self)"
    and "i < length (sop_chunks self)"
  shows "hybrid_scores sc ! i = sw * semantic_scores_norm sc ! i + bw * bm25_scores_norm sc ! i"
proof -
  note f = score_query_fields[OF assms(1)]
  have "i < length (semantic_scores_norm sc)" "i < length (bm25_scores_norm sc)"
    using f(3) assms(2,3) by (simp_all add: f(5) f(6) length_normalize)
  then show ?thesis unfolding f(7) by simp
qed

lemma normalize_spec:
  assumes "v \<noteq> []"
  shows "(Max (set v) > 0 \<longrightarrow>
            normalize v = map (\<lambda>x. x / Max (set v)) v \<and> Max (set (normalize v)) = 1)
       \<and> (Max (set v) \<le> 0 \<longrightarrow> normalize v = v)
       \<and> (Max (set v) = 0 \<and> list_all (\<lambda>x. 0 \<le> x) v \<longrightarrow> normalize v = replicate (length v) 0)"
proof -
  have m: "vec_max v = Max (set v)" using assms by (rule vec_max_eq_Max)
  have a: "Max (set v) > 0 \<Longrightarrow> normalize v = map (\<lambda>x. x / Max (set v)) v"
    by (simp add: normalize_def m)
  have b: "Max (set v) > 0 \<Longrightarrow> Max (set (normalize v)) = 1"
  proof -
    assume p: "Max (set v) > 0"
    have "normalize v \<noteq> []" using assms length_normalize[of v] by auto
    then show ?thesis using vec_max_normalize[OF assms] p m vec_max_eq_Max[of "normalize v"] by simp
  qed
  have c: "Max (set v) \<le> 0 \<Longrightarrow> normalize v = v"
    by (simp add: normalize_def m)
  have d: "Max (set v) = 0 \<Longrightarrow> list_all (\<lambda>x. 0 \<le> x) v \<Longrightarrow> normalize v = replicate (length v) 0"
  proof -
    assume z: "Max (set v) = 0" and nn: "list_all (\<lambda>x. 0 \<le> x) v"
    have "\<forall>x\<in>set v. x = 0"
    proof
      fix x assume x: "x \<in> set v"
      then have "x \<le> 0" using vec_max_ge[OF x] m z by simp
      moreover have "0 \<le> x" using nn x by (simp add: list_all_iff)
      ultimately show "x = 0" by simp
    qed
    then have "replicate (length v) 0 = v" by (rule replicate_length_same)
    then show ?thesis using c z by simp
  qed
  show ?thesis using a b c d by blast
qed

lemma select_best_sop_Inr_D:
  "select_best_sop self hits bm k t = Inr d \<Longrightarrow>
   \<exists>rs. retrieve_relevant_sops self hits bm k 0.6 0.4 = Inr rs"
  by (auto simp: select_best_sop_def split: sum.splits)

lemma select_best_sop_Nil:
  assumes "retrieve_relevant_sops self hits bm k 0.6 0.4 = Inr []"
    and "select_best_sop self hits bm k t = Inr d"
  shows "recommended d = NO_MATCH" "selected_sop_id d = None" "selected_sop_number d = None"
    "selected_sop_title d = None" "selected_confidence_score d = 0"
    "selected_confidence_level d = NONE" "retrieved_sops d = []" "alternative_sops d = None"
  using assms by (auto simp: select_best_sop_def)

lemma select_best_sop_Cons:
  assumes "retrieve_relevant_sops self hits bm k 0.6 0.4 = Inr (b # rest)"
    and "select_best_sop self hits bm k t = Inr d"
  shows "recommended d = (if confidence_score b \<ge> 0.7 then ACCEPT
                          else if confidence_score b \<ge> t then REVIEW else REJECT)"
    "selected_sop_id d = Some (result_id b)" "selected_sop_number d = Some (result_sop_number b)"
    "selected_sop_title d = Some (result_title b)"
    "selected_confidence_score d = confidence_score b"
    "selected_confidence_level d = confidence_level b"
    "selected_semantic_score d = Some (semantic_score b)"
    "selected_bm25_score d = Some (bm25_score b)"
    "retrieved_sops d = b # rest" "alternative_sops d = Some rest"
  using assms by (auto simp: select_best_sop_def split: if_splits)

lemma select_best_sop_total:
  "retrieve_relevant_sops self hits bm k 0.6 0.4 = Inr rs \<Longrightarrow>
   \<exists>d. select_best_sop self hits bm k t = Inr d"
  by (cases rs) (auto simp: select_best_sop_def split: if_splits)

subsection \<open>Ranking\<close>

text \<open>
  C1 (as amended). For a non-empty built catalog, a lexical vector with one entry per
  row and \<open>k \<ge> 1\<close>, \<^verbatim>\<open>retrieve_relevant_sops\<close> returns, and it returns exactly
  \<open>min k n\<close> candidates, one per row of \<open>top_indices\<close>, no row twice, in non-increasing
  order of the fused score (hence also of the rounded score returned). Nothing is
  said on the order of rows of equal fused score.
\<close>

theorem retrieve_count_and_order:
  assumes "sop_chunks self \<noteq> []" and "faiss_index self \<noteq> None"
    and "valid_hits (length (sop_chunks self)) hits"
    and "length bm = length (sop_chunks self)"
    and "1 \<le> k"
  shows "\<exists>sc rs. score_query self hits bm k sw bw = Inr sc
           \<and> retrieve_relevant_sops self hits bm k sw bw = Inr rs
           \<and> length rs = min (nat k) (length (sop_chunks self))
           \<and> rs = map (make_result (sop_chunks self) sc) (top_indices sc)
           \<and> distinct (top_indices sc)
           \<and> set (top_indices sc) \<subseteq> {0..<length (sop_chunks self)}
           \<and> sorted_wrt (\<lambda>i j. hybrid_scores sc ! i \<ge> hybrid_scores sc ! j) (top_indices sc)
           \<and> sorted_wrt (\<ge>) (map confidence_score rs)"
proof -
  obtain sc where sc: "score_query self hits bm k sw bw = Inr sc"
    using score_query_total[OF assms(1-3)] by blast
  let ?rs = "map (make_result (sop_chunks self) sc) (top_indices sc)"
  have r: "retrieve_relevant_sops self hits bm k sw bw = Inr ?rs"
    using retrieve_of_score_query[OF sc] .
  note tp = top_indices_props[OF sc assms(4)]
  have len: "length ?rs = min (nat k) (length (sop_chunks self))"
    using tp(4)[OF assms(5)] by simp
  have "sorted_wrt (\<lambda>i j. py_round (hybrid_scores sc ! i) 4 \<ge> py_round (hybrid_scores sc ! j) 4) (top_indices sc)"
    by (rule sorted_wrt_mono_rel[OF _ tp(3)]) (simp add: py_round_mono)
  then have srt: "sorted_wrt (\<ge>) (map confidence_score ?rs)"
    by (simp add: sorted_wrt_map make_result_fields o_def)
  show ?thesis
    using sc r len tp(1,2,3) srt by blast
qed

theorem retrieve_count_and_order_witness:
  "sop_chunks two_sops \<noteq> [] \<and> faiss_index two_sops \<noteq> None
   \<and> valid_hits (length (sop_chunks two_sops)) [(0, 9 / 10), (1, 1 / 5)]
   \<and> length [3 / 2, 0 :: real] = length (sop_chunks two_sops) \<and> (1 :: int) \<le> 1
   \<and> (\<exists>sc rs. score_query two_sops [(0, 9 / 10), (1, 1 / 5)] [3 / 2, 0] 1 0.6 0.4 = Inr sc
           \<and> retrieve_relevant_sops two_sops [(0, 9 / 10), (1, 1 / 5)] [3 / 2, 0] 1 0.6 0.4 = Inr rs
           \<and> length rs = min (nat 1) (length (sop_chunks two_sops))
           \<and> rs = map (make_result (sop_chunks two_sops) sc) (top_indices sc)
           \<and> distinct (top_indices sc)
           \<and> set (top_indices sc) \<subseteq> {0..<length (sop_chunks two_sops)}
           \<and> sorted_wrt (\<lambda>i j. hybrid_scores sc ! i \<ge> hybrid_scores sc ! j) (top_indices sc)
           \<and> sorted_wrt (\<ge>) (map confidence_score rs))"
proof -
  have h1: "sop_chunks two_sops \<noteq> []" by (simp add: two_sops_def)
  have h2: "faiss_index two_sops \<noteq> None" by (simp add: two_sops_def)
  have h3: "valid_hits (length (sop_chunks two_sops)) [(0, 9 / 10), (1, 1 / 5)]"
    by (simp add: two_sops_def valid_hits_def)
  have h4: "length [3 / 2, 0 :: real] = length (sop_chunks two_sops)"
    by (simp add: two_sops_def)
  have h5: "(1 :: int) \<le> 1" by simp
  from retrieve_count_and_order[OF h1 h2 h3 h4 h5, of "0.6" "0.4"] h1 h2 h3 h4 h5
  show ?thesis by blast
qed

text \<open>
  C1 as stated fails: on two rows of equal fused score the candidate of row 1 comes
  before that of row 0, since the ascending order of \<^verbatim>\<open>argsort\<close> is reversed.
\<close>

theorem retrieve_ties_not_ascending_counterexample:
  "score_query two_sops [(0, 0), (1, 0)] [0, 0] 2 0.6 0.4 =
     Inr \<lparr>semantic_scores = [0, 0], bm25_raw = [0, 0], semantic_scores_norm = [0, 0],
          bm25_scores_norm = [0, 0], hybrid_scores = [0, 0], top_indices = [1, 0]\<rparr>
   \<and> retrieve_relevant_sops two_sops [(0, 0), (1, 0)] [0, 0] 2 0.6 0.4 =
     Inr [\<lparr>result_id = ''sop_2'', result_title = ''SOP-2: API Slowness'',
           result_sop_number = 2, confidence_score = 0, confidence_level = LOW,
           semantic_score = 0, bm25_score = 0,
           content_preview = ''SOP-2: API Slowness...''\<rparr>,
          \<lparr>result_id = ''sop_1'', result_title = ''SOP-1: Database Outage'',
           result_sop_number = 1, confidence_score = 0, confidence_level = LOW,
           semantic_score = 0, bm25_score = 0,
           content_preview = ''SOP-1: Database Outage...''\<rparr>]"
  by (simp add: eval_defs)

subsection \<open>Parsing\<close>

lemma py_split_nonempty: "py_split c cs xs \<noteq> []"
  by (induction c cs xs rule: py_split.induct) (auto simp: neq_Nil_conv elim: cons_hd.elims)

lemma py_join_cons_hd: "ps \<noteq> [] \<Longrightarrow> py_join sep (cons_hd x ps) = x # py_join sep ps"
proof -
  assume "ps \<noteq> []"
  then obtain p qs where ps: "ps = p # qs" by (cases ps) auto
  show ?thesis unfolding ps by (cases qs) auto
qed

lemma py_join_split: "py_join (c # cs) (py_split c cs xs) = xs"
proof (induction c cs xs rule: py_split.induct)
  case (1 c cs)
  then show ?case by simp
next
  case (2 c cs x xs)
  show ?case
  proof (cases "x = c \<and> prefix cs xs")
    case True
    obtain q qs where q: "py_split c cs (drop (length cs) xs) = q # qs"
      using py_split_nonempty[of c cs "drop (length cs) xs"] by (auto simp: neq_Nil_conv)
    have "cs @ drop (length cs) xs = xs" using True by (auto simp: prefix_def)
    then show ?thesis using True 2(1) q by simp
  next
    case False
    then have "py_split c cs (x # xs) = cons_hd x (py_split c cs xs)" by auto
    then show ?thesis using 2(2)[OF False] py_split_nonempty[of c cs xs]
      by (simp add: py_join_cons_hd)
  qed
qed

lemma hd_py_split_prefix: "prefix (hd (py_split c cs xs)) xs"
proof (induction c cs xs rule: py_split.induct)
  case (1 c cs)
  then show ?case by simp
next
  case (2 c cs x xs)
  show ?case
  proof (cases "x = c \<and> prefix cs xs")
    case True
    then show ?thesis by simp
  next
    case False
    obtain q qs where q: "py_split c cs xs = q # qs"
      using py_split_nonempty[of c cs xs] by (auto simp: neq_Nil_conv)
    then show ?thesis using False 2(2) by simp
  qed
qed

lemma py_split_no_separator: "s \<in> set (py_split c cs xs) \<Longrightarrow> \<not> sublist (c # cs) s"
proof (induction c cs xs arbitrary: s rule: py_split.induct)
  case (1 c cs)
  then show ?case by simp
next
  case (2 c cs x xs)
  show ?case
  proof (cases "x = c \<and> prefix cs xs")
    case True
    then show ?thesis using 2(1)[of s] 2(3) by auto
  next
    case False
    obtain q qs where q: "py_split c cs xs = q # qs"
      using py_split_nonempty[of c cs xs] by (auto simp: neq_Nil_conv)
    have pq: "prefix q xs" using hd_py_split_prefix[of c cs xs] q by simp
    have s: "s = x # q \<or> s \<in> set qs" using 2(3) False q by simp
    then show ?thesis
    proof
      assume sx: "s = x # q"
      have nq: "\<not> sublist (c # cs) q" using 2(2)[OF False, of q] q by simp
      have "\<not> prefix (c # cs) (x # q)"
      proof
        assume "prefix (c # cs) (x # q)"
        then have "x = c" "prefix cs q" by auto
        then show False using pq False by (meson prefix_order.trans)
      qed
      then show ?thesis using nq sx by (simp add: sublist_Cons_right)
    next
      assume "s \<in> set qs"
      then show ?thesis using 2(2)[OF False, of s] q by simp
    qed
  qed
qed

lemma parse_section_cases:
  "parse_section raw =
     (if has_header (strip raw) then
        (case header_number (strip raw) of
           None \<Rightarrow> Inl ValueError_int
         | Some n \<Rightarrow> Inr (Some \<lparr>chunk_id = ''sop_'' @ str_int n,
                     title = ''SOP-'' @ str_int n @ '': '' @
                       strip (tl (dropWhile (\<lambda>c. c \<noteq> CHR '':'') (first_line (strip raw)))),
                     content = strip raw, sop_number = n\<rparr>))
      else Inr None)"
  by (simp add: parse_section_def has_header_def header_number_def Let_def)

lemma parse_loop_contents:
  "parse_loop ss acc = Inr chunks \<Longrightarrow>
   map content chunks = map content acc @ filter accepted (map strip ss)"
proof (induction ss arbitrary: acc)
  case Nil
  then show ?case by simp
next
  case (Cons s ss)
  then show ?case
    by (auto simp: parse_section_cases accepted_def split: if_splits option.splits)
qed

lemma parse_loop_numbers:
  "parse_loop ss acc = Inr chunks \<Longrightarrow>
   map (\<lambda>c. Some (sop_number c)) chunks =
     map (\<lambda>c. Some (sop_number c)) acc @ map header_number (filter accepted (map strip ss))"
proof (induction ss arbitrary: acc)
  case Nil
  then show ?case by simp
next
  case (Cons s ss)
  then show ?case
    by (auto simp: parse_section_cases accepted_def split: if_splits option.splits)
qed

lemma parse_loop_returns:
  "(\<exists>chunks. parse_loop ss acc = Inr chunks) \<longleftrightarrow>
   list_all (\<lambda>s. has_header (strip s) \<longrightarrow> header_number (strip s) \<noteq> None) ss"
proof (induction ss arbitrary: acc)
  case Nil
  then show ?case by simp
next
  case (Cons s ss)
  then show ?case
    by (auto simp: parse_section_cases split: if_splits option.splits)
qed

lemmas parse_defs =
  parse_sops_def parse_section_def strip_def isspace_def startswith_def first_line_def
  newline_def py_int_def int_strip_def int_isspace_def int_literal_def int_max_str_digits_def
  digit_val_def str_int_def digit_char_def Let_def

lemma py_int_examples:
  "py_int '' -1_0 '' = Some (- 10)"
  "py_int ''007'' = Some 7"
  "py_int [CHR 0xA0, CHR ''7'', CHR 0x85] = Some 7"
  "py_int [CHR 0x1C, CHR ''7''] = None"
  "py_int [CHR ''7'', CHR 0x1F] = None"
  "py_int ''1__0'' = None"
  "py_int ''+ 5'' = None"
  by (simp_all add: parse_defs)

lemma parse_sops_separator_in_number:
  "parse_sops (''SOP-'' @ [CHR 0x1C] @ ''7: t'') = Inl ValueError_int"
  by (simp add: parse_defs)

text \<open>
  C2. A record whose header is \<^verbatim>\<open>SOP-x: bad\<close> is not passed over: \<^verbatim>\<open>int('x')\<close>
  raises, the exception leaves \<^verbatim>\<open>parse_sops\<close>, and the well-formed record after it
  is lost with it.
\<close>

theorem parse_sops_aborts_on_non_integer_header:
  "parse_sops (''SOP-x: bad'' @ [newline] @ ''---'' @ [newline] @ ''SOP-2: Good'' @ [newline])
     = Inl ValueError_int"
  by (simp add: parse_defs)

text \<open>
  C3 (as amended). The text is cut at every occurrence of \<^verbatim>\<open>---\<close>, wherever it
  stands: the sections joined by \<^verbatim>\<open>---\<close> give the text back and no section
  contains \<^verbatim>\<open>---\<close>. \<^verbatim>\<open>parse_sops\<close> returns exactly when no trimmed section with
  a header has a number that \<^verbatim>\<open>int\<close> rejects; it then returns one chunk per
  accepted section, in order, whose content is the whole trimmed section and whose
  number is the one \<^verbatim>\<open>int\<close> read.
\<close>

theorem parse_sops_sections:
  "py_join ''---'' (py_split CHR ''-'' ''--'' raw) = raw
   \<and> list_all (\<lambda>s. \<not> sublist ''---'' s) (py_split CHR ''-'' ''--'' raw)
   \<and> ((\<exists>cs. parse_sops raw = Inr cs) \<longleftrightarrow>
        list_all (\<lambda>s. has_header (strip s) \<longrightarrow> header_number (strip s) \<noteq> None)
          (py_split CHR ''-'' ''--'' raw))
   \<and> (parse_sops raw = Inr chunks \<longrightarrow>
        map content chunks = filter accepted (map strip (py_split CHR ''-'' ''--'' raw))
        \<and> map (\<lambda>c. Some (sop_number c)) chunks
            = map header_number (filter accepted (map strip (py_split CHR ''-'' ''--'' raw))))"
proof -
  have 1: "py_join ''---'' (py_split CHR ''-'' ''--'' raw) = raw"
    using py_join_split[of "CHR ''-''" "''--''" raw] by simp
  have 2: "list_all (\<lambda>s. \<not> sublist ''---'' s) (py_split CHR ''-'' ''--'' raw)"
    using py_split_no_separator[of _ "CHR ''-''" "''--''" raw] by (simp add: list_all_iff)
  have 3: "(\<exists>cs. parse_sops raw = Inr cs) \<longleftrightarrow>
        list_all (\<lambda>s. has_header (strip s) \<longrightarrow> header_number (strip s) \<noteq> None)
          (py_split CHR ''-'' ''--'' raw)"
    unfolding parse_sops_def by (rule parse_loop_returns)
  have 4: "parse_sops raw = Inr chunks \<longrightarrow>
        map content chunks = filter accepted (map strip (py_split CHR ''-'' ''--'' raw))
        \<and> map (\<lambda>c. Some (sop_number c)) chunks
            = map header_number (filter accepted (map strip (py_split CHR ''-'' ''--'' raw)))"
    unfolding parse_sops_def
    using parse_loop_contents[of "py_split CHR ''-'' ''--'' raw" "[]" chunks]
      parse_loop_numbers[of "py_split CHR ''-'' ''--'' raw" "[]" chunks]
    by simp
  show ?thesis using 1 2 3 4 by blast
qed

theorem parse_sops_sections_witness:
  "parse_sops two_sops_text = Inr (sop_chunks two_sops)
   \<and> py_split CHR ''-'' ''--'' two_sops_text
       = [''SOP-1: Database Outage'' @ [newline], [newline] @ ''SOP-2: API Slowness'' @ [newline]]
   \<and> map content (sop_chunks two_sops)
       = filter accepted (map strip (py_split CHR ''-'' ''--'' two_sops_text))
   \<and> map (\<lambda>c. Some (sop_number c)) (sop_chunks two_sops)
       = map header_number (filter accepted (map strip (py_split CHR ''-'' ''--'' two_sops_text)))"
proof -
  have h: "parse_sops two_sops_text = Inr (sop_chunks two_sops)"
    by (simp add: two_sops_text_def two_sops_def parse_defs)
  have s: "py_split CHR ''-'' ''--'' two_sops_text
       = [''SOP-1: Database Outage'' @ [newline], [newline] @ ''SOP-2: API Slowness'' @ [newline]]"
    by (simp add: two_sops_text_def newline_def)
  from parse_sops_sections[of two_sops_text "sop_chunks two_sops"] h s
  show ?thesis by blast
qed

text \<open>
  C3 as stated fails. A \<^verbatim>\<open>---\<close> inside a line cuts the record there, so the content
  stored is not the record's text; and a header that is not of the form
  \<^verbatim>\<open>SOP-<integer>: <title>\<close> is accepted when removing \<^verbatim>\<open>SOP-\<close> leaves an integer.
\<close>

theorem parse_sops_boundary_counterexample:
  "parse_sops ''SOP-1: a---b''
     = Inr [\<lparr>chunk_id = ''sop_1'', title = ''SOP-1: a'', content = ''SOP-1: a'',
             sop_number = 1\<rparr>]
   \<and> parse_sops ''SOP-12SOP-: t''
     = Inr [\<lparr>chunk_id = ''sop_12'', title = ''SOP-12: t'', content = ''SOP-12SOP-: t'',
             sop_number = 12\<rparr>]"
  by (simp add: parse_defs)

subsection \<open>Normalization and fusion\<close>

text \<open>
  What the code does with each raw vector on a built index. When the maximum is
  positive every entry is divided by it and the maximum of the normalized vector is
  exactly 1; when the maximum is 0 and no entry is negative the vector is all zeros
  and stays so. In every other case the vector is left as it is.
\<close>

lemma normalize_on_query:
  assumes "sop_chunks self \<noteq> []" and "faiss_index self \<noteq> None"
    and "valid_hits (length (sop_chunks self)) hits"
    and "length bm = length (sop_chunks self)"
  shows "\<exists>sc. score_query self hits bm k sw bw = Inr sc
       \<and> (Max (set (semantic_scores sc)) > 0 \<longrightarrow>
            semantic_scores_norm sc
              = map (\<lambda>x. x / Max (set (semantic_scores sc))) (semantic_scores sc)
            \<and> Max (set (semantic_scores_norm sc)) = 1)
       \<and> (Max (set (semantic_scores sc)) \<le> 0 \<longrightarrow> semantic_scores_norm sc = semantic_scores sc)
       \<and> (Max (set (semantic_scores sc)) = 0 \<and> list_all (\<lambda>x. 0 \<le> x) (semantic_scores sc) \<longrightarrow>
            semantic_scores_norm sc = replicate (length (semantic_scores sc)) 0)
       \<and> bm25_raw sc = bm
       \<and> (Max (set bm) > 0 \<longrightarrow>
            bm25_scores_norm sc = map (\<lambda>x. x / Max (set bm)) bm
            \<and> Max (set (bm25_scores_norm sc)) = 1)
       \<and> (Max (set bm) \<le> 0 \<longrightarrow> bm25_scores_norm sc = bm)
       \<and> (Max (set bm) = 0 \<and> list_all (\<lambda>x. 0 \<le> x) bm \<longrightarrow>
            bm25_scores_norm sc = replicate (length bm) 0)"
proof -
  obtain sc where sc: "score_query self hits bm k sw bw = Inr sc"
    using score_query_total[OF assms(1-3)] by blast
  note f = score_query_fields[OF sc]
  have s: "semantic_scores sc \<noteq> []" using f(1,3) by auto
  have b: "bm \<noteq> []" using f(1) assms(4) by auto
  have body: "(Max (set (semantic_scores sc)) > 0 \<longrightarrow>
            semantic_scores_norm sc
              = map (\<lambda>x. x / Max (set (semantic_scores sc))) (semantic_scores sc)
            \<and> Max (set (semantic_scores_norm sc)) = 1)
       \<and> (Max (set (semantic_scores sc)) \<le> 0 \<longrightarrow> semantic_scores_norm sc = semantic_scores sc)
       \<and> (Max (set (semantic_scores sc)) = 0 \<and> list_all (\<lambda>x. 0 \<le> x) (semantic_scores sc) \<longrightarrow>
            semantic_scores_norm sc = replicate (length (semantic_scores sc)) 0)
       \<and> bm25_raw sc = bm
       \<and> (Max (set bm) > 0 \<longrightarrow>
            bm25_scores_norm sc = map (\<lambda>x. x / Max (set bm)) bm
            \<and> Max (set (bm25_scores_norm sc)) = 1)
       \<and> (Max (set bm) \<le> 0 \<longrightarrow> bm25_scores_norm sc = bm)
       \<and> (Max (set bm) = 0 \<and> list_all (\<lambda>x. 0 \<le> x) bm \<longrightarrow>
            bm25_scores_norm sc = replicate (length bm) 0)"
    using normalize_spec[OF s] normalize_spec[OF b] f(4) unfolding f(5) f(6) by blast
  show ?thesis by (rule exI[of _ sc], rule conjI[OF sc body])
qed

text \<open>
  C4. Each raw vector is to be divided by its own maximum, and to be all zeros when
  that maximum is 0. The code does not do so when an entry is negative: with cosine
  similarities \<open>0\<close> and \<open>-1/2\<close> the maximum is 0, the vector is left as it is with
  its entry \<open>-1/2\<close>, and the second candidate is returned with semantic score
  \<open>-0.5\<close> and confidence \<open>-0.3\<close>.
\<close>

theorem normalization_zero_maximum_negative_entry:
  "score_query two_sops [(0, 0), (1, - (1 / 2))] [0, 0] 2 0.6 0.4
     = Inr \<lparr>semantic_scores = [0, - (1 / 2)], bm25_raw = [0, 0],
            semantic_scores_norm = [0, - (1 / 2)], bm25_scores_norm = [0, 0],
            hybrid_scores = [0, - (3 / 10)], top_indices = [0, 1]\<rparr>
   \<and> retrieve_relevant_sops two_sops [(0, 0), (1, - (1 / 2))] [0, 0] 2 0.6 0.4 =
     Inr [\<lparr>result_id = ''sop_1'', result_title = ''SOP-1: Database Outage'',
           result_sop_number = 1, confidence_score = 0, confidence_level = LOW,
           semantic_score = 0, bm25_score = 0,
           content_preview = ''SOP-1: Database Outage...''\<rparr>,
          \<lparr>result_id = ''sop_2'', result_title = ''SOP-2: API Slowness'',
           result_sop_number = 2, confidence_score = - (3 / 10), confidence_level = LOW,
           semantic_score = - (1 / 2), bm25_score = 0,
           content_preview = ''SOP-2: API Slowness...''\<rparr>]"
  by (simp add: eval_defs)

text \<open>
  C5 (as amended). For every returned candidate the fused score is
  \<open>sw * norm_semantic + bw * norm_lexical\<close>, on the normalized scores themselves.
  The three fields returned are these three values, each rounded to 4 decimals on its
  own, so the returned confidence is the rounded fused score and not the weighted sum
  of the two returned scores.
\<close>

theorem fused_score_of_returned_candidates:
  assumes "sop_chunks self \<noteq> []" and "faiss_index self \<noteq> None"
    and "valid_hits (length (sop_chunks self)) hits"
    and "length bm = length (sop_chunks self)"
  shows "\<exists>sc rs. score_query self hits bm k sw bw = Inr sc
       \<and> retrieve_relevant_sops self hits bm k sw bw = Inr rs
       \<and> length rs = length (top_indices sc)
       \<and> (\<forall>j < length rs.
            hybrid_scores sc ! (top_indices sc ! j)
              = sw * semantic_scores_norm sc ! (top_indices sc ! j)
                + bw * bm25_scores_norm sc ! (top_indices sc ! j)
          \<and> confidence_score (rs ! j) = py_round (hybrid_scores sc ! (top_indices sc ! j)) 4
          \<and> semantic_score (rs ! j) = py_round (semantic_scores_norm sc ! (top_indices sc ! j)) 4
          \<and> bm25_score (rs ! j) = py_round (bm25_scores_norm sc ! (top_indices sc ! j)) 4)"
proof -
  obtain sc where sc: "score_query self hits bm k sw bw = Inr sc"
    using score_query_total[OF assms(1-3)] by blast
  let ?rs = "map (make_result (sop_chunks self) sc) (top_indices sc)"
  have r: "retrieve_relevant_sops self hits bm k sw bw = Inr ?rs"
    using retrieve_of_score_query[OF sc] .
  have every: "\<forall>j < length ?rs.
            hybrid_scores sc ! (top_indices sc ! j)
              = sw * semantic_scores_norm sc ! (top_indices sc ! j)
                + bw * bm25_scores_norm sc ! (top_indices sc ! j)
          \<and> confidence_score (?rs ! j) = py_round (hybrid_scores sc ! (top_indices sc ! j)) 4
          \<and> semantic_score (?rs ! j) = py_round (semantic_scores_norm sc ! (top_indices sc ! j)) 4
          \<and> bm25_score (?rs ! j) = py_round (bm25_scores_norm sc ! (top_indices sc ! j)) 4"
  proof (intro allI impI)
    fix j assume "j < length ?rs"
    then have j: "j < length (top_indices sc)" by simp
    let ?i = "top_indices sc ! j"
    have i: "?i < length (sop_chunks self)" using top_index_in_range[OF sc assms(4) j] .
    have h: "hybrid_scores sc ! ?i
               = sw * semantic_scores_norm sc ! ?i + bw * bm25_scores_norm sc ! ?i"
      using hybrid_nth[OF sc assms(4) i] .
    have e: "?rs ! j = make_result (sop_chunks self) sc ?i" using j by simp
    show "hybrid_scores sc ! ?i
              = sw * semantic_scores_norm sc ! ?i + bw * bm25_scores_norm sc ! ?i
          \<and> confidence_score (?rs ! j) = py_round (hybrid_scores sc ! ?i) 4
          \<and> semantic_score (?rs ! j) = py_round (semantic_scores_norm sc ! ?i) 4
          \<and> bm25_score (?rs ! j) = py_round (bm25_scores_norm sc ! ?i) 4"
      unfolding e make_result_fields using h by simp
  qed
  have len: "length ?rs = length (top_indices sc)" by simp
  show ?thesis
    by (rule exI[of _ sc], rule exI[of _ ?rs], rule conjI[OF sc conjI[OF r conjI[OF len every]]])
qed

theorem fused_score_of_returned_candidates_witness:
  "sop_chunks two_sops \<noteq> [] \<and> faiss_index two_sops \<noteq> None
   \<and> valid_hits (length (sop_chunks two_sops)) [(0, 9 / 10), (1, 1 / 5)]
   \<and> length [3 / 2, 0 :: real] = length (sop_chunks two_sops)
   \<and> (\<exists>sc rs. score_query two_sops [(0, 9 / 10), (1, 1 / 5)] [3 / 2, 0] 2 0.6 0.4 = Inr sc
       \<and> retrieve_relevant_sops two_sops [(0, 9 / 10), (1, 1 / 5)] [3 / 2, 0] 2 0.6 0.4 = Inr rs
       \<and> length rs = length (top_indices sc)
       \<and> (\<forall>j < length rs.
            hybrid_scores sc ! (top_indices sc ! j)
              = 0.6 * semantic_scores_norm sc ! (top_indices sc ! j)
                + 0.4 * bm25_scores_norm sc ! (top_indices sc ! j)
          \<and> confidence_score (rs ! j) = py_round (hybrid_scores sc ! (top_indices sc ! j)) 4
          \<and> semantic_score (rs ! j) = py_round (semantic_scores_norm sc ! (top_indices sc ! j)) 4
          \<and> bm25_score (rs ! j) = py_round (bm25_scores_norm sc ! (top_indices sc ! j)) 4))"
proof -
  have h1: "sop_chunks two_sops \<noteq> []" by (simp add: two_sops_def)
  have h2: "faiss_index two_sops \<noteq> None" by (simp add: two_sops_def)
  have h3: "valid_hits (length (sop_chunks two_sops)) [(0, 9 / 10), (1, 1 / 5)]"
    by (simp add: two_sops_def valid_hits_def)
  have h4: "length [3 / 2, 0 :: real] = length (sop_chunks two_sops)"
    by (simp add: two_sops_def)
  from fused_score_of_returned_candidates[OF h1 h2 h3 h4,
      where k = 2 and sw = "0.6" and bw = "0.4"] h1 h2 h3 h4
  show ?thesis by blast
qed

text \<open>
  C5 as stated fails: with cosine similarities \<open>0.75\<close> and \<open>0.25\<close> and no lexical
  score the second candidate has normalized semantic score \<open>1/3\<close>; it is returned
  with semantic score \<open>0.3333\<close> and confidence \<open>0.2\<close>, and \<open>0.6 * 0.3333 + 0.4 * 0\<close>
  is \<open>0.19998\<close>.
\<close>

theorem fused_score_recomputed_counterexample:
  "retrieve_relevant_sops two_sops [(0, 3 / 4), (1, 1 / 4)] [0, 0] 2 0.6 0.4 =
     Inr [\<lparr>result_id = ''sop_1'', result_title = ''SOP-1: Database Outage'',
           result_sop_number = 1, confidence_score = 6 / 10, confidence_level = MEDIUM,
           semantic_score = 1, bm25_score = 0,
           content_preview = ''SOP-1: Database Outage...''\<rparr>,
          \<lparr>result_id = ''sop_2'', result_title = ''SOP-2: API Slowness'',
           result_sop_number = 2, confidence_score = 2 / 10, confidence_level = LOW,
           semantic_score = 3333 / 10000, bm25_score = 0,
           content_preview = ''SOP-2: API Slowness...''\<rparr>]
   \<and> (2 / 10 :: real) \<noteq> 0.6 * (3333 / 10000) + 0.4 * 0"
  by (simp add: eval_defs)

subsection \<open>Confidence tier and recommendation\<close>

lemma result_tier:
  assumes "score_query self hits bm k sw bw = Inr sc"
    and "j < length (top_indices sc)"
  shows "(hybrid_scores sc ! (top_indices sc ! j) \<ge> 0.7 \<longrightarrow>
            confidence_level (map (make_result (sop_chunks self) sc) (top_indices sc) ! j) = HIGH)
       \<and> (0.4 \<le> hybrid_scores sc ! (top_indices sc ! j)
            \<and> hybrid_scores sc ! (top_indices sc ! j) < 0.7 \<longrightarrow>
            confidence_level (map (make_result (sop_chunks self) sc) (top_indices sc) ! j) = MEDIUM)
       \<and> (hybrid_scores sc ! (top_indices sc ! j) < 0.4 \<longrightarrow>
            confidence_level (map (make_result (sop_chunks self) sc) (top_indices sc) ! j) = LOW)"
  using assms(2) by (simp add: make_result_fields)

lemma decision_tier:
  assumes "retrieve_relevant_sops self hits bm k 0.6 0.4 = Inr rs"
    and "select_best_sop self hits bm k t = Inr d"
  shows "retrieved_sops d = rs"
    and "selected_confidence_level d = (if rs = [] then NONE else confidence_level (hd rs))"
    and "alternative_sops d = (if rs = [] then None else Some (tl rs))"
proof -
  have "retrieved_sops d = rs
      \<and> selected_confidence_level d = (if rs = [] then NONE else confidence_level (hd rs))
      \<and> alternative_sops d = (if rs = [] then None else Some (tl rs))"
  proof (cases rs)
    case Nil
    then show ?thesis using select_best_sop_Nil[OF _ assms(2)] assms(1) by simp
  next
    case (Cons b rest)
    then show ?thesis using select_best_sop_Cons[OF _ assms(2)] assms(1) by simp
  qed
  then show "retrieved_sops d = rs"
    and "selected_confidence_level d = (if rs = [] then NONE else confidence_level (hd rs))"
    and "alternative_sops d = (if rs = [] then None else Some (tl rs))"
    by simp_all
qed

lemma decision_of_top:
  assumes "score_query self hits bm k 0.6 0.4 = Inr sc"
    and "select_best_sop self hits bm k t = Inr d"
    and "top_indices sc \<noteq> []"
  shows "selected_confidence_score d = py_round (hybrid_scores sc ! hd (top_indices sc)) 4"
    and "recommended d =
          (if py_round (hybrid_scores sc ! hd (top_indices sc)) 4 \<ge> 0.7 then ACCEPT
           else if py_round (hybrid_scores sc ! hd (top_indices sc)) 4 \<ge> t then REVIEW
           else REJECT)"
    and "selected_confidence_level d =
          (if hybrid_scores sc ! hd (top_indices sc) \<ge> 0.7 then HIGH
           else if hybrid_scores sc ! hd (top_indices sc) \<ge> 0.4 then MEDIUM else LOW)"
proof -
  obtain i rest where t: "top_indices sc = i # rest"
    using assms(3) by (cases "top_indices sc") auto
  have r: "retrieve_relevant_sops self hits bm k 0.6 0.4
             = Inr (make_result (sop_chunks self) sc i
                    # map (make_result (sop_chunks self) sc) rest)"
    using retrieve_of_score_query[OF assms(1)] t by simp
  note f = select_best_sop_Cons[OF r assms(2)]
  show "selected_confidence_score d = py_round (hybrid_scores sc ! hd (top_indices sc)) 4"
    unfolding f(5) by (simp add: make_result_fields t)
  show "recommended d =
          (if py_round (hybrid_scores sc ! hd (top_indices sc)) 4 \<ge> 0.7 then ACCEPT
           else if py_round (hybrid_scores sc ! hd (top_indices sc)) 4 \<ge> t then REVIEW
           else REJECT)"
    unfolding f(1) by (simp add: make_result_fields t)
  show "selected_confidence_level d =
          (if hybrid_scores sc ! hd (top_indices sc) \<ge> 0.7 then HIGH
           else if hybrid_scores sc ! hd (top_indices sc) \<ge> 0.4 then MEDIUM else LOW)"
    unfolding f(6) by (simp add: make_result_fields t)
qed

text \<open>
  C6. Every candidate that \<^verbatim>\<open>retrieve_relevant_sops\<close> returns carries the tier of its
  own fused score \<open>s\<close>: HIGH for \<open>s \<ge> 0.70\<close>, MEDIUM for \<open>0.40 \<le> s < 0.70\<close>, LOW for
  \<open>s < 0.40\<close>. \<^verbatim>\<open>select_best_sop\<close> hands the candidates on unchanged, the
  alternatives being all but the first, each with its own tier; its own tier is that
  of the first candidate, and NONE when no candidate was retrieved.
\<close>

theorem confidence_tier_of_candidates:
  assumes "sop_chunks self \<noteq> []" and "faiss_index self \<noteq> None"
    and "valid_hits (length (sop_chunks self)) hits"
  shows "\<exists>sc rs rs' d. score_query self hits bm k sw bw = Inr sc
       \<and> retrieve_relevant_sops self hits bm k sw bw = Inr rs
       \<and> length rs = length (top_indices sc)
       \<and> (\<forall>j < length rs.
            (hybrid_scores sc ! (top_indices sc ! j) \<ge> 0.7 \<longrightarrow> confidence_level (rs ! j) = HIGH)
          \<and> (0.4 \<le> hybrid_scores sc ! (top_indices sc ! j)
               \<and> hybrid_scores sc ! (top_indices sc ! j) < 0.7 \<longrightarrow>
               confidence_level (rs ! j) = MEDIUM)
          \<and> (hybrid_scores sc ! (top_indices sc ! j) < 0.4 \<longrightarrow> confidence_level (rs ! j) = LOW))
       \<and> retrieve_relevant_sops self hits bm k 0.6 0.4 = Inr rs'
       \<and> select_best_sop self hits bm k t = Inr d
       \<and> retrieved_sops d = rs'
       \<and> selected_confidence_level d = (if rs' = [] then NONE else confidence_level (hd rs'))
       \<and> alternative_sops d = (if rs' = [] then None else Some (tl rs'))"
proof -
  obtain sc where sc: "score_query self hits bm k sw bw = Inr sc"
    using score_query_total[OF assms] by blast
  let ?rs = "map (make_result (sop_chunks self) sc) (top_indices sc)"
  have r: "retrieve_relevant_sops self hits bm k sw bw = Inr ?rs"
    using retrieve_of_score_query[OF sc] .
  have len: "length ?rs = length (top_indices sc)" by simp
  have tiers: "\<forall>j < length ?rs.
            (hybrid_scores sc ! (top_indices sc ! j) \<ge> 0.7 \<longrightarrow> confidence_level (?rs ! j) = HIGH)
          \<and> (0.4 \<le> hybrid_scores sc ! (top_indices sc ! j)
               \<and> hybrid_scores sc ! (top_indices sc ! j) < 0.7 \<longrightarrow>
               confidence_level (?rs ! j) = MEDIUM)
          \<and> (hybrid_scores sc ! (top_indices sc ! j) < 0.4 \<longrightarrow> confidence_level (?rs ! j) = LOW)"
    using result_tier[OF sc] by simp
  obtain sc' where sc': "score_query self hits bm k 0.6 0.4 = Inr sc'"
    using score_query_total[OF assms] by blast
  let ?rs' = "map (make_result (sop_chunks self) sc') (top_indices sc')"
  have r': "retrieve_relevant_sops self hits bm k 0.6 0.4 = Inr ?rs'"
    using retrieve_of_score_query[OF sc'] .
  obtain d where d: "select_best_sop self hits bm k t = Inr d"
    using select_best_sop_total[OF r'] by blast
  note dt = decision_tier[OF r' d]
  show ?thesis
    by (rule exI[of _ sc], rule exI[of _ ?rs], rule exI[of _ ?rs'], rule exI[of _ d],
        rule conjI[OF sc conjI[OF r conjI[OF len conjI[OF tiers
          conjI[OF r' conjI[OF d conjI[OF dt(1) conjI[OF dt(2) dt(3)]]]]]]]])
qed

theorem confidence_tier_of_candidates_witness:
  "sop_chunks two_sops \<noteq> [] \<and> faiss_index two_sops \<noteq> None
   \<and> valid_hits (length (sop_chunks two_sops)) [(0, 1), (1, 1 / 2)]
   \<and> map_sum id hybrid_scores (score_query two_sops [(0, 1), (1, 1 / 2)] [1, 1 / 2] 2 0.6 0.4)
       = Inr [1, 1 / 2]
   \<and> map_sum id (map confidence_level)
        (retrieve_relevant_sops two_sops [(0, 1), (1, 1 / 2)] [1, 1 / 2] 2 0.6 0.4)
       = Inr [HIGH, MEDIUM]
   \<and> map_sum id selected_confidence_level
        (select_best_sop two_sops [(0, 1), (1, 1 / 2)] [1, 1 / 2] 0 0.4) = Inr NONE
   \<and> (\<exists>sc rs rs' d. score_query two_sops [(0, 1), (1, 1 / 2)] [1, 1 / 2] 2 0.6 0.4 = Inr sc
       \<and> retrieve_relevant_sops two_sops [(0, 1), (1, 1 / 2)] [1, 1 / 2] 2 0.6 0.4 = Inr rs
       \<and> length rs = length (top_indices sc)
       \<and> (\<forall>j < length rs.
            (hybrid_scores sc ! (top_indices sc ! j) \<ge> 0.7 \<longrightarrow> confidence_level (rs ! j) = HIGH)
          \<and> (0.4 \<le> hybrid_scores sc ! (top_indices sc ! j)
               \<and> hybrid_scores sc ! (top_indices sc ! j) < 0.7 \<longrightarrow>
               confidence_level (rs ! j) = MEDIUM)
          \<and> (hybrid_scores sc ! (top_indices sc ! j) < 0.4 \<longrightarrow> confidence_level (rs ! j) = LOW))
       \<and> retrieve_relevant_sops two_sops [(0, 1), (1, 1 / 2)] [1, 1 / 2] 2 0.6 0.4 = Inr rs'
       \<and> select_best_sop two_sops [(0, 1), (1, 1 / 2)] [1, 1 / 2] 2 0.4 = Inr d
       \<and> retrieved_sops d = rs'
       \<and> selected_confidence_level d = (if rs' = [] then NONE else confidence_level (hd rs'))
       \<and> alternative_sops d = (if rs' = [] then None else Some (tl rs')))"
proof -
  have h1: "sop_chunks two_sops \<noteq> []" by (simp add: two_sops_def)
  have h2: "faiss_index two_sops \<noteq> None" by (simp add: two_sops_def)
  have h3: "valid_hits (length (sop_chunks two_sops)) [(0, 1), (1, 1 / 2)]"
    by (simp add: two_sops_def valid_hits_def)
  have e1: "map_sum id hybrid_scores
              (score_query two_sops [(0, 1), (1, 1 / 2)] [1, 1 / 2] 2 0.6 0.4) = Inr [1, 1 / 2]"
    by (simp add: eval_defs)
  have e2: "map_sum id (map confidence_level)
        (retrieve_relevant_sops two_sops [(0, 1), (1, 1 / 2)] [1, 1 / 2] 2 0.6 0.4)
       = Inr [HIGH, MEDIUM]"
    by (simp add: eval_defs)
  have e3: "map_sum id selected_confidence_level
        (select_best_sop two_sops [(0, 1), (1, 1 / 2)] [1, 1 / 2] 0 0.4) = Inr NONE"
    by (simp add: eval_defs)
  note w = confidence_tier_of_candidates[OF h1 h2 h3,
      where bm = "[1, 1 / 2]" and k = 2 and sw = "0.6" and bw = "0.4" and t = "0.4"]
  show ?thesis
    by (rule conjI[OF h1 conjI[OF h2 conjI[OF h3 conjI[OF e1 conjI[OF e2 conjI[OF e3 w]]]]]])
qed




text \<open>
  C8 (as amended). For the same query, hence the same top fused score, and thresholds
  \<open>t1 \<le> t2\<close>, the recommendation under \<open>t2\<close> is never an upgrade of that under \<open>t1\<close>:
  ACCEPT stays ACCEPT, REVIEW stays REVIEW or becomes REJECT, and it becomes REJECT
  only when \<open>t2\<close> lies above the confidence returned, which is the fused score
  rounded to 4 decimals; REJECT stays REJECT.
\<close>

theorem raising_threshold_never_upgrades:
  assumes "sop_chunks self \<noteq> []" and "faiss_index self \<noteq> None"
    and "valid_hits (length (sop_chunks self)) hits"
    and "t1 \<le> t2"
  shows "\<exists>sc d1 d2. score_query self hits bm k 0.6 0.4 = Inr sc
       \<and> select_best_sop self hits bm k t1 = Inr d1
       \<and> select_best_sop self hits bm k t2 = Inr d2
       \<and> (top_indices sc \<noteq> [] \<longrightarrow>
             selected_confidence_score d1 = py_round (hybrid_scores sc ! hd (top_indices sc)) 4)
       \<and> selected_confidence_score d2 = selected_confidence_score d1
       \<and> (recommended d1 = ACCEPT \<longrightarrow> recommended d2 = ACCEPT)
       \<and> (recommended d1 = REVIEW \<longrightarrow> recommended d2 = REVIEW \<or> recommended d2 = REJECT)
       \<and> (recommended d1 = REVIEW \<and> recommended d2 = REJECT \<longrightarrow>
             selected_confidence_score d1 < t2)
       \<and> (recommended d1 = REJECT \<longrightarrow> recommended d2 = REJECT)
       \<and> (recommended d1 = NO_MATCH \<longrightarrow> recommended d2 = NO_MATCH)"
proof -
  obtain sc where sc: "score_query self hits bm k 0.6 0.4 = Inr sc"
    using score_query_total[OF assms(1-3)] by blast
  obtain rs where r: "retrieve_relevant_sops self hits bm k 0.6 0.4 = Inr rs"
    using retrieve_of_score_query[OF sc] by blast
  obtain d1 where d1: "select_best_sop self hits bm k t1 = Inr d1"
    using select_best_sop_total[OF r] by blast
  obtain d2 where d2: "select_best_sop self hits bm k t2 = Inr d2"
    using select_best_sop_total[OF r] by blast
  have m: "selected_confidence_score d2 = selected_confidence_score d1
       \<and> (recommended d1 = ACCEPT \<longrightarrow> recommended d2 = ACCEPT)
       \<and> (recommended d1 = REVIEW \<longrightarrow> recommended d2 = REVIEW \<or> recommended d2 = REJECT)
       \<and> (recommended d1 = REVIEW \<and> recommended d2 = REJECT \<longrightarrow>
             selected_confidence_score d1 < t2)
       \<and> (recommended d1 = REJECT \<longrightarrow> recommended d2 = REJECT)
       \<and> (recommended d1 = NO_MATCH \<longrightarrow> recommended d2 = NO_MATCH)"
  proof (cases rs)
    case Nil
    then show ?thesis
      using select_best_sop_Nil[OF _ d1] select_best_sop_Nil[OF _ d2] r by simp
  next
    case (Cons b rest)
    note f1 = select_best_sop_Cons[OF r[unfolded Cons] d1]
    note f2 = select_best_sop_Cons[OF r[unfolded Cons] d2]
    show ?thesis unfolding f1(1) f2(1) f1(5) f2(5) using assms(4) by (auto split: if_splits)
  qed
  have c: "top_indices sc \<noteq> [] \<longrightarrow>
             selected_confidence_score d1 = py_round (hybrid_scores sc ! hd (top_indices sc)) 4"
    using decision_of_top(1)[OF sc d1] by blast
  show ?thesis
    by (rule exI[of _ sc], rule exI[of _ d1], rule exI[of _ d2],
        rule conjI[OF sc conjI[OF d1 conjI[OF d2 conjI[OF c m]]]])
qed

theorem raising_threshold_never_upgrades_witness:
  "sop_chunks two_sops \<noteq> [] \<and> faiss_index two_sops \<noteq> None
   \<and> valid_hits (length (sop_chunks two_sops)) [(0, 1), (1, 0)]
   \<and> (0.4 :: real) \<le> 0.65
   \<and> map_sum id recommended (select_best_sop two_sops [(0, 1), (1, 0)] [0, 1] 2 0.4)
       = Inr REVIEW
   \<and> map_sum id recommended (select_best_sop two_sops [(0, 1), (1, 0)] [0, 1] 2 0.65)
       = Inr REJECT
   \<and> (\<exists>sc d1 d2. score_query two_sops [(0, 1), (1, 0)] [0, 1] 2 0.6 0.4 = Inr sc
       \<and> select_best_sop two_sops [(0, 1), (1, 0)] [0, 1] 2 0.4 = Inr d1
       \<and> select_best_sop two_sops [(0, 1), (1, 0)] [0, 1] 2 0.65 = Inr d2
       \<and> (top_indices sc \<noteq> [] \<longrightarrow>
             selected_confidence_score d1 = py_round (hybrid_scores sc ! hd (top_indices sc)) 4)
       \<and> selected_confidence_score d2 = selected_confidence_score d1
       \<and> (recommended d1 = ACCEPT \<longrightarrow> recommended d2 = ACCEPT)
       \<and> (recommended d1 = REVIEW \<longrightarrow> recommended d2 = REVIEW \<or> recommended d2 = REJECT)
       \<and> (recommended d1 = REVIEW \<and> recommended d2 = REJECT \<longrightarrow>
             selected_confidence_score d1 < 0.65)
       \<and> (recommended d1 = REJECT \<longrightarrow> recommended d2 = REJECT)
       \<and> (recommended d1 = NO_MATCH \<longrightarrow> recommended d2 = NO_MATCH))"
proof -
  have h1: "sop_chunks two_sops \<noteq> []" by (simp add: two_sops_def)
  have h2: "faiss_index two_sops \<noteq> None" by (simp add: two_sops_def)
  have h3: "valid_hits (length (sop_chunks two_sops)) [(0, 1), (1, 0)]"
    by (simp add: two_sops_def valid_hits_def)
  have h4: "(0.4 :: real) \<le> 0.65" by simp
  have e1: "map_sum id recommended (select_best_sop two_sops [(0, 1), (1, 0)] [0, 1] 2 0.4)
       = Inr REVIEW"
    by (simp add: eval_defs)
  have e2: "map_sum id recommended (select_best_sop two_sops [(0, 1), (1, 0)] [0, 1] 2 0.65)
       = Inr REJECT"
    by (simp add: eval_defs)
  note w = raising_threshold_never_upgrades[OF h1 h2 h3 h4, where bm = "[0, 1]" and k = 2]
  show ?thesis
    by (rule conjI[OF h1 conjI[OF h2 conjI[OF h3 conjI[OF h4 conjI[OF e1 conjI[OF e2 w]]]]]])
qed

text \<open>
  C8 as stated fails in its middle clause. With top fused score \<open>0.65004\<close> the
  recommendation is REVIEW under the threshold \<open>0.4\<close> and REJECT under the threshold
  \<open>0.65002\<close>, which has not risen above the fused score: the score compared is the
  rounded \<open>0.65\<close>.
\<close>

theorem review_to_reject_below_fused_score_counterexample:
  "map_sum id hybrid_scores (score_query two_sops [(0, 1), (1, 0)] [1251, 10000] 2 0.6 0.4)
       = Inr [65004 / 100000, 4 / 10]
   \<and> map_sum id top_indices (score_query two_sops [(0, 1), (1, 0)] [1251, 10000] 2 0.6 0.4)
       = Inr [0, 1]
   \<and> (0.4 :: real) \<le> 65002 / 100000
   \<and> (65002 / 100000 :: real) < 65004 / 100000
   \<and> map_sum id recommended (select_best_sop two_sops [(0, 1), (1, 0)] [1251, 10000] 2 0.4)
       = Inr REVIEW
   \<and> map_sum id recommended
        (select_best_sop two_sops [(0, 1), (1, 0)] [1251, 10000] 2 (65002 / 100000))
       = Inr REJECT"
  by (simp add: eval_defs)

text \<open>
  C10. The three scores of every returned candidate are the fused and normalized
  values rounded to 4 decimals, and \<^verbatim>\<open>select_best_sop\<close> compares the rounded
  confidence of the first candidate with 0.70 and with the threshold, while that
  candidate's tier comes from the unrounded fused score. So with top fused score
  \<open>0.69996\<close> the recommendation is ACCEPT and the tier MEDIUM.
\<close>

theorem rounded_score_decides_recommendation:
  assumes "sop_chunks self \<noteq> []" and "faiss_index self \<noteq> None"
    and "valid_hits (length (sop_chunks self)) hits"
  shows "(\<exists>sc rs d. score_query self hits bm k 0.6 0.4 = Inr sc
       \<and> retrieve_relevant_sops self hits bm k 0.6 0.4 = Inr rs
       \<and> select_best_sop self hits bm k t = Inr d
       \<and> list_all2 (\<lambda>r i. confidence_score r = py_round (hybrid_scores sc ! i) 4
                       \<and> semantic_score r = py_round (semantic_scores_norm sc ! i) 4
                       \<and> bm25_score r = py_round (bm25_scores_norm sc ! i) 4) rs (top_indices sc)
       \<and> (rs \<noteq> [] \<longrightarrow>
            recommended d =
              (if py_round (hybrid_scores sc ! hd (top_indices sc)) 4 \<ge> 0.7 then ACCEPT
               else if py_round (hybrid_scores sc ! hd (top_indices sc)) 4 \<ge> t then REVIEW
               else REJECT)
          \<and> selected_confidence_level d =
              (if hybrid_scores sc ! hd (top_indices sc) \<ge> 0.7 then HIGH
               else if hybrid_scores sc ! hd (top_indices sc) \<ge> 0.4 then MEDIUM else LOW)))
   \<and> map_sum id hybrid_scores (score_query two_sops [(0, 1), (1, 0)] [2499, 10000] 2 0.6 0.4)
        = Inr [69996 / 100000, 4 / 10]
   \<and> map_sum id top_indices (score_query two_sops [(0, 1), (1, 0)] [2499, 10000] 2 0.6 0.4)
        = Inr [0, 1]
   \<and> map_sum id recommended (select_best_sop two_sops [(0, 1), (1, 0)] [2499, 10000] 2 0.4)
        = Inr ACCEPT
   \<and> map_sum id selected_confidence_level
        (select_best_sop two_sops [(0, 1), (1, 0)] [2499, 10000] 2 0.4) = Inr MEDIUM"
proof -
  obtain sc where sc: "score_query self hits bm k 0.6 0.4 = Inr sc"
    using score_query_total[OF assms] by blast
  let ?rs = "map (make_result (sop_chunks self) sc) (top_indices sc)"
  have r: "retrieve_relevant_sops self hits bm k 0.6 0.4 = Inr ?rs"
    using retrieve_of_score_query[OF sc] .
  obtain d where d: "select_best_sop self hits bm k t = Inr d"
    using select_best_sop_total[OF r] by blast
  have rounded: "list_all2 (\<lambda>r i. confidence_score r = py_round (hybrid_scores sc ! i) 4
                       \<and> semantic_score r = py_round (semantic_scores_norm sc ! i) 4
                       \<and> bm25_score r = py_round (bm25_scores_norm sc ! i) 4) ?rs (top_indices sc)"
    by (simp add: list_all2_map1 make_result_fields list_all2_same)
  have top: "?rs \<noteq> [] \<longrightarrow>
            recommended d =
              (if py_round (hybrid_scores sc ! hd (top_indices sc)) 4 \<ge> 0.7 then ACCEPT
               else if py_round (hybrid_scores sc ! hd (top_indices sc)) 4 \<ge> t then REVIEW
               else REJECT)
          \<and> selected_confidence_level d =
              (if hybrid_scores sc ! hd (top_indices sc) \<ge> 0.7 then HIGH
               else if hybrid_scores sc ! hd (top_indices sc) \<ge> 0.4 then MEDIUM else LOW)"
  proof
    assume "?rs \<noteq> []"
    then have ne: "top_indices sc \<noteq> []" by simp
    show "recommended d =
              (if py_round (hybrid_scores sc ! hd (top_indices sc)) 4 \<ge> 0.7 then ACCEPT
               else if py_round (hybrid_scores sc ! hd (top_indices sc)) 4 \<ge> t then REVIEW
               else REJECT)
          \<and> selected_confidence_level d =
              (if hybrid_scores sc ! hd (top_indices sc) \<ge> 0.7 then HIGH
               else if hybrid_scores sc ! hd (top_indices sc) \<ge> 0.4 then MEDIUM else LOW)"
      by (rule conjI[OF decision_of_top(2)[OF sc d ne] decision_of_top(3)[OF sc d ne]])
  qed
  have g: "\<exists>sc rs d. score_query self hits bm k 0.6 0.4 = Inr sc
       \<and> retrieve_relevant_sops self hits bm k 0.6 0.4 = Inr rs
       \<and> select_best_sop self hits bm k t = Inr d
       \<and> list_all2 (\<lambda>r i. confidence_score r = py_round (hybrid_scores sc ! i) 4
                       \<and> semantic_score r = py_round (semantic_scores_norm sc ! i) 4
                       \<and> bm25_score r = py_round (bm25_scores_norm sc ! i) 4) rs (top_indices sc)
       \<and> (rs \<noteq> [] \<longrightarrow>
            recommended d =
              (if py_round (hybrid_scores sc ! hd (top_indices sc)) 4 \<ge> 0.7 then ACCEPT
               else if py_round (hybrid_scores sc ! hd (top_indices sc)) 4 \<ge> t then REVIEW
               else REJECT)
          \<and> selected_confidence_level d =
              (if hybrid_scores sc ! hd (top_indices sc) \<ge> 0.7 then HIGH
               else if hybrid_scores sc ! hd (top_indices sc) \<ge> 0.4 then MEDIUM else LOW))"
    by (rule exI[of _ sc], rule exI[of _ ?rs], rule exI[of _ d],
        rule conjI[OF sc conjI[OF r conjI[OF d conjI[OF rounded top]]]])
  have e1: "map_sum id hybrid_scores (score_query two_sops [(0, 1), (1, 0)] [2499, 10000] 2 0.6 0.4)
        = Inr [69996 / 100000, 4 / 10]"
    by (simp add: eval_defs)
  have e2: "map_sum id top_indices (score_query two_sops [(0, 1), (1, 0)] [2499, 10000] 2 0.6 0.4)
        = Inr [0, 1]"
    by (simp add: eval_defs)
  have e3: "map_sum id recommended (select_best_sop two_sops [(0, 1), (1, 0)] [2499, 10000] 2 0.4)
        = Inr ACCEPT"
    by (simp add: eval_defs)
  have e4: "map_sum id selected_confidence_level
        (select_best_sop two_sops [(0, 1), (1, 0)] [2499, 10000] 2 0.4) = Inr MEDIUM"
    by (simp add: eval_defs)
  show ?thesis
    by (rule conjI[OF g conjI[OF e1 conjI[OF e2 conjI[OF e3 e4]]]])
qed

theorem rounded_score_decides_recommendation_witness:
  "sop_chunks two_sops \<noteq> [] \<and> faiss_index two_sops \<noteq> None
   \<and> valid_hits (length (sop_chunks two_sops)) [(0, 1), (1, 0)]
   \<and> (\<exists>sc rs d. score_query two_sops [(0, 1), (1, 0)] [2499, 10000] 2 0.6 0.4 = Inr sc
       \<and> retrieve_relevant_sops two_sops [(0, 1), (1, 0)] [2499, 10000] 2 0.6 0.4 = Inr rs
       \<and> select_best_sop two_sops [(0, 1), (1, 0)] [2499, 10000] 2 0.4 = Inr d
       \<and> list_all2 (\<lambda>r i. confidence_score r = py_round (hybrid_scores sc ! i) 4
                       \<and> semantic_score r = py_round (semantic_scores_norm sc ! i) 4
                       \<and> bm25_score r = py_round (bm25_scores_norm sc ! i) 4) rs (top_indices sc)
       \<and> (rs \<noteq> [] \<longrightarrow>
            recommended d =
              (if py_round (hybrid_scores sc ! hd (top_indices sc)) 4 \<ge> 0.7 then ACCEPT
               else if py_round (hybrid_scores sc ! hd (top_indices sc)) 4 \<ge> 0.4 then REVIEW
               else REJECT)
          \<and> selected_confidence_level d =
              (if hybrid_scores sc ! hd (top_indices sc) \<ge> 0.7 then HIGH
               else if hybrid_scores sc ! hd (top_indices sc) \<ge> 0.4 then MEDIUM else LOW)))"
proof -
  have h1: "sop_chunks two_sops \<noteq> []" by (simp add: two_sops_def)
  have h2: "faiss_index two_sops \<noteq> None" by (simp add: two_sops_def)
  have h3: "valid_hits (length (sop_chunks two_sops)) [(0, 1), (1, 0)]"
    by (simp add: two_sops_def valid_hits_def)
  note w = rounded_score_decides_recommendation[OF h1 h2 h3,
      where bm = "[2499, 10000]" and k = 2 and t = "0.4", THEN conjunct1]
  show ?thesis
    by (rule conjI[OF h1 conjI[OF h2 conjI[OF h3 w]]])
qed

subsection \<open>Range of the scores\<close>

text \<open>
  C9. With cosine similarities \<open>1\<close> and \<open>-1\<close> and no lexical overlap, the second
  candidate is returned with semantic score \<open>-1\<close> and confidence \<open>-0.6\<close>, both
  outside the interval from 0 to 1.
\<close>

theorem retrieve_negative_scores:
  "retrieve_relevant_sops two_sops [(0, 1), (1, - 1)] [0, 0] 2 0.6 0.4 =
     Inr [\<lparr>result_id = ''sop_1'', result_title = ''SOP-1: Database Outage'',
           result_sop_number = 1, confidence_score = 6 / 10, confidence_level = MEDIUM,
           semantic_score = 1, bm25_score = 0,
           content_preview = ''SOP-1: Database Outage...''\<rparr>,
          \<lparr>result_id = ''sop_2'', result_title = ''SOP-2: API Slowness'',
           result_sop_number = 2, confidence_score = - (6 / 10), confidence_level = LOW,
           semantic_score = - 1, bm25_score = 0,
           content_preview = ''SOP-2: API Slowness...''\<rparr>]"
  by (simp add: eval_defs)

end
